theory Spec2Isabelle
  imports Complex_Main "HOL-Library.Sublist"
begin

section \<open>Python strings\<close>

text \<open>
  A Python \<open>str\<close> is a sequence of Unicode code points and \<open>len\<close> counts code
  points, so a string is modelled as the list of its code points. The replacement
  strings of the source contain U+200E and U+200B and the progress bar glyphs are
  U+2588 and U+2591, none of which fits an 8-bit \<open>char\<close>.
\<close>

type_synonym pystr = "nat list"

definition ascii :: "string \<Rightarrow> pystr" where
  "ascii s = map of_char s"

definition backtick :: nat where
  "backtick = 96"

definition newline :: nat where
  "newline = 10"

definition space :: nat where
  "space = 32"

definition colon :: nat where
  "colon = 58"

definition lrm :: nat where
  \<comment> \<open>U+200E, written both escaped and literally in \<open>commands.py\<close>\<close>
  "lrm = 8206"

definition zwsp :: nat where
  \<comment> \<open>U+200B, the escape of \<open>code_block\<close>\<close>
  "zwsp = 8203"

definition fence :: pystr where
  "fence = [backtick, backtick, backtick]"

text \<open>
  \<open>s.replace(old, new)\<close>: leftmost, non-overlapping occurrences, scanning from the
  left; an empty \<open>old\<close> matches before every character and at the end.
\<close>

function py_replace :: "pystr \<Rightarrow> pystr \<Rightarrow> pystr \<Rightarrow> pystr" where
  "py_replace old new s =
     (if old = [] then concat (map (\<lambda>c. new @ [c]) s) @ new
      else if s = [] then []
      else if prefix old s then new @ py_replace old new (drop (length old) s)
      else hd s # py_replace old new (tl s))"
  by pat_completeness auto
termination
  by (relation "measure (\<lambda>(old, new, s). length s)")
     (auto simp: less_Suc_eq_le le_diff_conv2 intro: diff_less)

declare py_replace.simps [simp del]

text \<open>\<open>sep.join(xs)\<close>.\<close>

fun py_join :: "pystr \<Rightarrow> pystr list \<Rightarrow> pystr" where
  "py_join sep [] = []"
| "py_join sep [x] = x"
| "py_join sep (x # y # ys) = x @ sep @ py_join sep (y # ys)"

text \<open>\<open>s.split(c)\<close> for a one-character separator: never the empty list.\<close>

fun py_split :: "nat \<Rightarrow> pystr \<Rightarrow> pystr list" where
  "py_split c [] = [[]]"
| "py_split c (x # xs) =
     (if x = c then [] # py_split c xs
      else (case py_split c xs of
              [] \<Rightarrow> [[x]]
            | l # ls \<Rightarrow> (x # l) # ls))"

text \<open>\<open>s[:n]\<close> for an integer \<open>n\<close>: a negative bound counts from the end.\<close>

definition py_slice_to :: "int \<Rightarrow> 'a list \<Rightarrow> 'a list" where
  "py_slice_to n s =
     (if 0 \<le> n then take (nat n) s else take (length s - nat (- n)) s)"

text \<open>\<open>s * n\<close>: the empty string for \<open>n \<le> 0\<close>.\<close>

definition py_str_mul :: "pystr \<Rightarrow> int \<Rightarrow> pystr" where
  "py_str_mul s n = concat (replicate (nat n) s)"

text \<open>\<open>int(x)\<close> on a number: truncation towards zero.\<close>

definition py_trunc :: "real \<Rightarrow> int" where
  "py_trunc x = (if 0 \<le> x then \<lfloor>x\<rfloor> else \<lceil>x\<rceil>)"

text \<open>
  \<open>int(s)\<close> on a string: surrounding whitespace is dropped, then an optional sign,
  then decimal digits in which single underscores may separate digits. Anything
  else raises \<open>ValueError\<close>, here \<open>None\<close>. Digits are the ASCII digits; the
  decimal digits of other scripts, which Python also accepts, are not modelled.
\<close>

definition is_space :: "nat \<Rightarrow> bool" where
  "is_space c \<longleftrightarrow>
     (9 \<le> c \<and> c \<le> 13) \<or> (28 \<le> c \<and> c \<le> 32) \<or> c = 133 \<or> c = 160 \<or> c = 5760 \<or>
     (8192 \<le> c \<and> c \<le> 8202) \<or> c = 8232 \<or> c = 8233 \<or> c = 8239 \<or> c = 8287 \<or>
     c = 12288"

definition is_digit :: "nat \<Rightarrow> bool" where
  "is_digit c \<longleftrightarrow> 48 \<le> c \<and> c \<le> 57"

definition py_strip :: "pystr \<Rightarrow> pystr" where
  "py_strip s = rev (dropWhile is_space (rev (dropWhile is_space s)))"

fun parse_digits :: "pystr \<Rightarrow> int \<Rightarrow> bool \<Rightarrow> int option" where
  "parse_digits [] acc after_digit = (if after_digit then Some acc else None)"
| "parse_digits (c # cs) acc after_digit =
     (if is_digit c then parse_digits cs (10 * acc + int (c - 48)) True
      else if c = 95 \<and> after_digit \<and> cs \<noteq> [] \<and> is_digit (hd cs)
        then parse_digits cs acc False
      else None)"

definition py_int :: "pystr \<Rightarrow> int option" where
  "py_int s =
     (case py_strip s of
        [] \<Rightarrow> None
      | c # cs \<Rightarrow>
          if c = 43 then parse_digits cs 0 False
          else if c = 45 then map_option uminus (parse_digits cs 0 False)
          else parse_digits (c # cs) 0 False)"

datatype py_error = ValueError | FileNotFoundError | HTTPException


section \<open>\<open>pgbot/utils.py\<close>\<close>

subsection \<open>\<open>progress_bar\<close>\<close>

definition full_bar_default :: pystr where
  \<comment> \<open>U+2588\<close>
  "full_bar_default = [9608]"

definition empty_bar_default :: pystr where
  \<comment> \<open>U+2591\<close>
  "empty_bar_default = [9617]"

text \<open>
  The percentage is a Python number; it is modelled as an exact real, so the rounding
  of a float product is not part of the model.
\<close>

definition progress_bar :: "real \<Rightarrow> pystr \<Rightarrow> pystr \<Rightarrow> int \<Rightarrow> pystr" where
  "progress_bar pct0 full_bar empty_bar divisions =
     (let pct = (if pct0 < 0 then 0 else if pct0 > 1 then 1 else pct0)
      in py_str_mul full_bar (py_trunc (of_int divisions * pct)) @
         py_str_mul empty_bar (divisions - py_trunc (of_int divisions * pct)))"

subsection \<open>\<open>split_long_message\<close>\<close>

text \<open>
  The loop state is the pair of \<open>split_output\<close> and \<open>temp\<close>; \<open>temp[:-1]\<close> is
  \<open>butlast temp\<close>, also on the empty string. The copies in \<open>pgbot/util.py\<close> and
  \<open>pgbot/utils.py\<close> are the same function.
\<close>

definition split_step :: "pystr list \<times> pystr \<Rightarrow> pystr \<Rightarrow> pystr list \<times> pystr" where
  "split_step st line =
     (case st of (split_output, temp) \<Rightarrow>
        if length temp + length line + 1 > 2000
        then (split_output @ [butlast temp], line @ [newline])
        else (split_output, temp @ line @ [newline]))"

definition split_long_message :: "pystr \<Rightarrow> pystr list" where
  "split_long_message message =
     (case foldl split_step ([], []) (py_split newline message) of
        (split_output, temp) \<Rightarrow>
          if temp \<noteq> [] then split_output @ [temp] else split_output)"

subsection \<open>\<open>filter_emoji_id\<close>\<close>

datatype emoji_id = IntId int | StrName pystr

definition filter_emoji_id :: "pystr \<Rightarrow> py_error + emoji_id" where
  "filter_emoji_id name =
     (if count_list name colon \<ge> 2
      then (let emoji_id = butlast (last (py_split colon name))
            in case py_int emoji_id of
                 None \<Rightarrow> Inl ValueError
               | Some n \<Rightarrow> Inr (IntId n))
      else (case py_int name of
              Some n \<Rightarrow> Inr (IntId n)
            | None \<Rightarrow> Inr (StrName name)))"

subsection \<open>\<open>code_block\<close>\<close>

definition esc_code_block :: pystr where
  "esc_code_block = [zwsp, backtick, zwsp, backtick, zwsp, backtick, zwsp]"

definition code_block :: "pystr \<Rightarrow> int \<Rightarrow> pystr" where
  "code_block string0 max_characters0 =
     (let string = py_replace fence esc_code_block string0;
          max_characters = max_characters0 - 7
      in if int (length string) > max_characters
         then fence @ [newline] @ py_slice_to (max_characters - 7) string @ ascii '' ...'' @ fence
         else fence @ [newline] @ py_slice_to max_characters string @ fence)"


section \<open>\<open>commands.py\<close>: the \<open>exec\<close> branch of \<open>user_command\<close>\<close>

subsection \<open>Normalising the submitted source\<close>

definition wrapper_chars :: "nat list" where
  "wrapper_chars = [space, backtick, newline]"

text \<open>
  The first loop, \<open>for x in range(len(code))\<close>, with the index \<open>x\<close> and the variable
  \<open>ret\<close> as arguments; \<open>break\<close> returns \<open>ret\<close>.
\<close>

function leading_loop :: "pystr \<Rightarrow> nat \<Rightarrow> pystr \<Rightarrow> pystr" where
  "leading_loop code x ret =
     (if x < length code
      then (if code ! x \<in> set wrapper_chars
            then leading_loop code (x + 1) (drop (x + 1) code)
            else ret)
      else ret)"
  by pat_completeness auto
termination
  by (relation "measure (\<lambda>(code, x, ret). length code - x)") auto

declare leading_loop.simps [simp del]

text \<open>
  The second loop, \<open>for x in reversed(range(len(code)))\<close>: the second argument counts
  the indices still to visit, so the index visited is its predecessor.
\<close>

fun trailing_loop :: "pystr \<Rightarrow> nat \<Rightarrow> pystr \<Rightarrow> pystr" where
  "trailing_loop code 0 ret = ret"
| "trailing_loop code (Suc x) ret =
     (if code ! x \<in> set wrapper_chars
      then trailing_loop code x (take x code)
      else ret)"

definition normalize_source :: "pystr \<Rightarrow> pystr" where
  "normalize_source code0 =
     (let ret0 = leading_loop code0 0 [];
          code = ret0;
          ret = trailing_loop code (length code) ret0
      in if prefix (ascii ''py'' @ [newline]) ret then drop 3 ret else ret)"

definition exec_source :: "pystr \<Rightarrow> pystr \<Rightarrow> pystr" where
  \<comment> \<open>\<open>msg.content[len(prefix) + 5:]\<close>, normalised\<close>
  "exec_source prefix_str content = normalize_source (drop (length prefix_str + 5) content)"

definition spec_test_source :: pystr where
  "spec_test_source =
     ascii ''  ```py'' @ [newline] @ ascii ''print(1)'' @ [newline] @ ascii ''```  ''"

subsection \<open>The result of the sandbox and the world around the handler\<close>

record 'v py_exception =
  exc_name :: pystr
  exc_args :: "'v list"

record ('v, 'img) sandbox_result =
  res_duration :: real
  res_text :: pystr
  res_img :: "'img option"
  res_exc :: "'v py_exception option"

datatype action = SendFile pystr | SendEmbed pystr pystr

text \<open>
  The files of the working directory (name to size in bytes) and the messages the
  channel has received, in order.
\<close>

record world =
  files :: "pystr \<rightharpoonup> nat"
  channel :: "action list"

text \<open>
  What the handler calls and the repository does not define: \<open>str\<close> of an argument
  value, \<open>formatTime\<close>, the text of a float in an f-string, the size of the file
  \<open>pygame.image.save\<close> writes, and whether the channel accepts a message (a send that
  fails raises).
\<close>

record ('v, 'img) env =
  py_str :: "'v \<Rightarrow> pystr"
  format_time :: "real \<Rightarrow> pystr"
  fmt_float :: "real \<Rightarrow> pystr"
  png_size :: "'img \<Rightarrow> nat"
  delivers :: "action \<Rightarrow> bool"

datatype outcome = Returned world | Raised py_error world

fun world_of :: "outcome \<Rightarrow> world" where
  "world_of (Returned w) = w"
| "world_of (Raised e w) = w"

definition and_then :: "outcome \<Rightarrow> (world \<Rightarrow> outcome) \<Rightarrow> outcome" where
  "and_then r f = (case r of Returned w \<Rightarrow> f w | Raised e w \<Rightarrow> Raised e w)"

definition channel_send :: "('v, 'img) env \<Rightarrow> action \<Rightarrow> world \<Rightarrow> outcome" where
  "channel_send en a w =
     (if delivers en a then Returned (w\<lparr>channel := channel w @ [a]\<rparr>)
      else Raised HTTPException w)"

definition sendEmbed :: "('v, 'img) env \<Rightarrow> pystr \<Rightarrow> pystr \<Rightarrow> world \<Rightarrow> outcome" where
  "sendEmbed en title description w = channel_send en (SendEmbed title description) w"

definition image_save :: "('v, 'img) env \<Rightarrow> 'img \<Rightarrow> pystr \<Rightarrow> world \<Rightarrow> world" where
  "image_save en im name w = w\<lparr>files := (files w)(name \<mapsto> png_size en im)\<rparr>"

definition os_remove :: "pystr \<Rightarrow> world \<Rightarrow> outcome" where
  "os_remove name w =
     (if name \<in> dom (files w) then Returned (w\<lparr>files := (files w)(name := None)\<rparr>)
      else Raised FileNotFoundError w)"

subsection \<open>Rendering\<close>

definition temp_png :: "('v, 'img) env \<Rightarrow> real \<Rightarrow> pystr" where
  \<comment> \<open>\<open>f'temp{start}.png'\<close>\<close>
  "temp_png en start = ascii ''temp'' @ fmt_float en start @ ascii ''.png''"

definition image_too_large :: action where
  "image_too_large =
     SendEmbed (ascii ''Image cannot be sent'') (ascii ''The image file size is >4MiB'')"

definition image_handoff :: "('v, 'img) env \<Rightarrow> real \<Rightarrow> 'img \<Rightarrow> world \<Rightarrow> outcome" where
  "image_handoff en start im w =
     (let w1 = image_save en im (temp_png en start) w
      in case files w1 (temp_png en start) of
           None \<Rightarrow> Raised FileNotFoundError w1
         | Some getsize \<Rightarrow>
             and_then
               (if getsize < 2 ^ 22
                then channel_send en (SendFile (temp_png en start)) w1
                else channel_send en image_too_large w1)
               (os_remove (temp_png en start)))"

definition esc_text :: pystr where
  "esc_text = [lrm, lrm, backtick, lrm, backtick, lrm, lrm, backtick, lrm, lrm, lrm]"

definition esc_exc :: pystr where
  "esc_exc = [lrm, lrm, backtick, lrm, backtick, lrm, backtick, lrm]"

text \<open>
  The framing shared by both branches: \<open>s\<close> is \<open>str_repr\<close> or \<open>exp\<close>.
\<close>

definition framed :: "pystr \<Rightarrow> pystr" where
  "framed s =
     (if length s + 7 > 2048
      then fence @ [newline] @ take 2038 s @ ascii '' ...'' @ fence
      else fence @ [newline] @ s @ fence)"

definition text_description :: "pystr \<Rightarrow> pystr" where
  "text_description txt =
     (let str_repr0 = py_replace fence esc_text txt;
          str_repr = (if str_repr0 = [] then [space] else str_repr0)
      in framed str_repr)"

definition text_title :: "('v, 'img) env \<Rightarrow> real \<Rightarrow> pystr" where
  "text_title en duration =
     ascii ''Returned text (code executed in '' @ format_time en duration @ ascii ''):''"

definition exception_line :: "('v, 'img) env \<Rightarrow> 'v py_exception \<Rightarrow> pystr" where
  "exception_line en e =
     py_replace fence esc_exc (exc_name e) @ ascii '': '' @
     py_replace fence esc_exc (py_join (ascii '', '') (map (py_str en) (exc_args e)))"

definition exception_title :: pystr where
  "exception_title = ascii ''An exception occured!''"

definition exec_render ::
  "('v, 'img) env \<Rightarrow> real \<Rightarrow> ('v, 'img) sandbox_result \<Rightarrow> world \<Rightarrow> outcome" where
  "exec_render en start returned w =
     (case res_exc returned of
        None \<Rightarrow>
          and_then
            (case res_img returned of
               Some im \<Rightarrow> image_handoff en start im w
             | None \<Rightarrow> Returned w)
            (sendEmbed en (text_title en (res_duration returned))
               (text_description (res_text returned)))
      | Some e \<Rightarrow> sendEmbed en exception_title (framed (exception_line en e)) w)"

subsection \<open>What the rendered messages are\<close>




subsection \<open>Concrete inputs\<close>

text \<open>
  An environment in which argument values are strings, an image is given by the size
  of its file, and the channel accepts every message; and one whose channel accepts
  none.
\<close>

definition plain_env :: "(pystr, nat) env" where
  "plain_env =
     \<lparr>py_str = (\<lambda>t. t), format_time = (\<lambda>d. ascii ''1.0000 s''),
      fmt_float = (\<lambda>t. ascii ''0.0''), png_size = (\<lambda>im. im), delivers = (\<lambda>a. True)\<rparr>"

definition failing_env :: "(pystr, nat) env" where
  "failing_env = plain_env\<lparr>delivers := (\<lambda>a. False)\<rparr>"

definition empty_world :: world where
  "empty_world = \<lparr>files = Map.empty, channel = []\<rparr>"

definition text_result :: "pystr \<Rightarrow> nat option \<Rightarrow> (pystr, nat) sandbox_result" where
  "text_result txt im = \<lparr>res_duration = 1, res_text = txt, res_img = im, res_exc = None\<rparr>"



section \<open>Facts about the string operations\<close>

lemma fence_nonempty: "fence \<noteq> []"
  by (simp add: fence_def)

lemma fence_replace_Nil: "py_replace fence new [] = []"
  by (subst py_replace.simps) (simp add: fence_nonempty)

lemma fence_replace_hit:
  "py_replace fence new (backtick # backtick # backtick # s) = new @ py_replace fence new s"
  by (subst py_replace.simps) (simp add: fence_def)

lemma fence_replace_miss:
  "\<not> prefix fence (c # s) \<Longrightarrow> py_replace fence new (c # s) = c # py_replace fence new s"
  by (subst py_replace.simps) (simp add: fence_nonempty)

lemma prefix_fence_iff: "prefix fence s \<longleftrightarrow> (\<exists>t. s = backtick # backtick # backtick # t)"
  by (auto simp: fence_def prefix_def)

lemma fence_replace_clean: "backtick \<notin> set s \<Longrightarrow> py_replace fence new s = s"
  by (induction s) (auto simp: fence_replace_Nil fence_replace_miss prefix_fence_iff)

text \<open>
  A replacement that does not begin with a backtick leaves a backtick at the head of
  the output only where the input had one that started no fence.
\<close>

lemma fence_replace_head:
  assumes "new \<noteq> []" "hd new \<noteq> backtick" "py_replace fence new s = backtick # t"
  shows "\<exists>s'. s = backtick # s' \<and> t = py_replace fence new s' \<and> \<not> prefix fence s"
proof (cases s)
  case Nil
  with assms show ?thesis by (simp add: fence_replace_Nil)
next
  case (Cons c s')
  show ?thesis
  proof (cases "prefix fence s")
    case True
    then obtain u where "s = backtick # backtick # backtick # u"
      by (auto simp: prefix_fence_iff)
    with assms show ?thesis
      by (cases new) (auto simp: fence_replace_hit)
  next
    case False
    with Cons assms show ?thesis
      by (auto simp: fence_replace_miss)
  qed
qed

lemma fence_replace_no_fence:
  assumes "new \<noteq> []" "hd new \<noteq> backtick" "last new \<noteq> backtick" "\<not> sublist fence new"
  shows "\<not> sublist fence (py_replace fence new s)"
proof (induction s rule: length_induct)
  case (1 s)
  show ?case
  proof (cases s)
    case Nil
    then show ?thesis by (simp add: fence_replace_Nil fence_nonempty)
  next
    case (Cons c s')
    show ?thesis
    proof (cases "prefix fence s")
      case True
      then obtain u where u: "s = backtick # backtick # backtick # u"
        by (auto simp: prefix_fence_iff)
      have IH: "\<not> sublist fence (py_replace fence new u)"
        using 1 u by simp
      have "\<not> sublist fence (new @ py_replace fence new u)"
      proof
        assume "sublist fence (new @ py_replace fence new u)"
        then obtain xs1 xs2 where x: "fence = xs1 @ xs2" "suffix xs1 new"
            "prefix xs2 (py_replace fence new u)"
          using assms(4) IH by (auto simp: sublist_append)
        show False
        proof (cases "xs1 = []")
          case True
          with x IH show False by (auto dest: prefix_imp_sublist)
        next
          case False
          from x(2) obtain zs where "new = zs @ xs1" by (auto simp: suffix_def)
          with False have "last new = last xs1" by simp
          moreover from x(1) False have "last xs1 = backtick"
            by (cases xs2 rule: rev_cases)
               (auto simp: fence_def append_eq_Cons_conv Cons_eq_append_conv)
          ultimately show False using assms(3) by simp
        qed
      qed
      with u show ?thesis by (simp add: fence_replace_hit)
    next
      case False
      have IH: "\<not> sublist fence (py_replace fence new s')"
        using 1 Cons by simp
      have "\<not> prefix fence (c # py_replace fence new s')"
      proof
        assume "prefix fence (c # py_replace fence new s')"
        then obtain t where t: "c = backtick" "py_replace fence new s' = backtick # backtick # t"
          by (auto simp: prefix_fence_iff)
        from fence_replace_head [OF assms(1,2) t(2)]
        obtain s'' where s'': "s' = backtick # s''" "backtick # t = py_replace fence new s''"
          by auto
        from fence_replace_head [OF assms(1,2) s''(2) [symmetric]]
        obtain s3 where "s'' = backtick # s3" by auto
        with s'' t Cons False show False by (simp add: prefix_fence_iff)
      qed
      with IH False Cons show ?thesis
        by (simp add: fence_replace_miss sublist_Cons_right)
    qed
  qed
qed



lemma esc_text_ok:
  "esc_text \<noteq> []" "hd esc_text \<noteq> backtick" "last esc_text \<noteq> backtick"
  "\<not> sublist fence esc_text"
  by (simp_all add: esc_text_def fence_def lrm_def backtick_def sublist_Cons_right)

lemma esc_exc_ok:
  "esc_exc \<noteq> []" "hd esc_exc \<noteq> backtick" "last esc_exc \<noteq> backtick"
  "\<not> sublist fence esc_exc"
  by (simp_all add: esc_exc_def fence_def lrm_def backtick_def sublist_Cons_right)

lemma esc_code_block_ok:
  "esc_code_block \<noteq> []" "hd esc_code_block \<noteq> backtick" "last esc_code_block \<noteq> backtick"
  "\<not> sublist fence esc_code_block"
  by (simp_all add: esc_code_block_def fence_def zwsp_def backtick_def sublist_Cons_right)


section \<open>Neutralising the fence\<close>

text \<open>
  Claim C5. Whatever the input string, the replacement of the three-backtick fence
  leaves no three consecutive backticks: with the replacement string used for the
  result text, with the one used for the exception kind name and argument values,
  and with the one of \<open>code_block\<close>.
\<close>

theorem neutralized_has_no_fence:
  "\<not> sublist fence (py_replace fence esc_text s) \<and>
   \<not> sublist fence (py_replace fence esc_exc s) \<and>
   \<not> sublist fence (py_replace fence esc_code_block s)"
  by (simp add: fence_replace_no_fence esc_text_ok esc_exc_ok esc_code_block_ok)


section \<open>Normalising the source\<close>

text \<open>
  What the two loops compute. The first one returns the empty string unless the
  text begins with a wrapper character; the second one leaves \<open>ret\<close> alone unless
  the text ends with one.
\<close>

lemma leading_loop_spec:
  "x \<le> length code \<Longrightarrow>
   leading_loop code x ret =
     (if x < length code \<and> code ! x \<in> set wrapper_chars
      then dropWhile (\<lambda>c. c \<in> set wrapper_chars) (drop x code) else ret)"
proof (induction code x ret rule: leading_loop.induct)
  case (1 code x ret)
  show ?case
  proof (cases "x < length code \<and> code ! x \<in> set wrapper_chars")
    case False
    then show ?thesis by (subst leading_loop.simps) auto
  next
    case True
    then have d: "drop x code = code ! x # drop (x + 1) code"
      by (simp add: Cons_nth_drop_Suc)
    have "leading_loop code (x + 1) (drop (x + 1) code) =
          dropWhile (\<lambda>c. c \<in> set wrapper_chars) (drop (x + 1) code)"
    proof (cases "x + 1 < length code \<and> code ! (x + 1) \<in> set wrapper_chars")
      case True
      with 1 \<open>x < length code \<and> code ! x \<in> set wrapper_chars\<close> show ?thesis by simp
    next
      case False
      have "dropWhile (\<lambda>c. c \<in> set wrapper_chars) (drop (x + 1) code) = drop (x + 1) code"
      proof (cases "x + 1 < length code")
        case True
        with False have "drop (x + 1) code = code ! (x + 1) # drop (x + 2) code"
          "code ! (x + 1) \<notin> set wrapper_chars"
          using Cons_nth_drop_Suc [of "x + 1" code] by simp_all
        then show ?thesis by simp
      next
        case False
        then show ?thesis by simp
      qed
      moreover have "leading_loop code (x + 1) (drop (x + 1) code) = drop (x + 1) code"
        using 1 True False by auto
      ultimately show ?thesis by simp
    qed
    with True d show ?thesis by (subst leading_loop.simps) simp
  qed
qed

lemma trailing_loop_spec:
  "n \<le> length code \<Longrightarrow>
   trailing_loop code n ret =
     (if 0 < n \<and> code ! (n - 1) \<in> set wrapper_chars
      then rev (dropWhile (\<lambda>c. c \<in> set wrapper_chars) (rev (take n code))) else ret)"
proof (induction n arbitrary: ret)
  case 0
  then show ?case by simp
next
  case (Suc n)
  show ?case
  proof (cases "code ! n \<in> set wrapper_chars")
    case False
    then show ?thesis by simp
  next
    case True
    from Suc.prems have t: "take (Suc n) code = take n code @ [code ! n]"
      by (simp add: take_Suc_conv_app_nth)
    have "trailing_loop code n (take n code) =
          rev (dropWhile (\<lambda>c. c \<in> set wrapper_chars) (rev (take n code)))"
    proof (cases "0 < n \<and> code ! (n - 1) \<in> set wrapper_chars")
      case True
      with Suc show ?thesis by simp
    next
      case False
      have "dropWhile (\<lambda>c. c \<in> set wrapper_chars) (rev (take n code)) = rev (take n code)"
      proof (cases n)
        case 0
        then show ?thesis by simp
      next
        case (Suc m)
        with Suc.prems have "take n code = take m code @ [code ! m]"
          by (simp add: take_Suc_conv_app_nth)
        with False Suc show ?thesis by simp
      qed
      with Suc False show ?thesis by simp
    qed
    with True t show ?thesis by simp
  qed
qed

text \<open>
  Claim C1, as amended. A source that is a non-empty run of spaces, backticks and
  newlines, then a body that neither begins nor ends with one of these characters,
  then a possibly empty run of them, is normalised to its body, less a leading
  language tag \<open>py\<close> with its newline. Both runs are removed whole, so a newline
  that ends the body's last line goes with the closing fence.
\<close>

theorem normalize_source_wrapped:
  assumes "pre \<noteq> []" "set pre \<subseteq> set wrapper_chars" "set post \<subseteq> set wrapper_chars"
    and "body \<noteq> []" "hd body \<notin> set wrapper_chars" "last body \<notin> set wrapper_chars"
  shows "normalize_source (pre @ body @ post) =
           (if prefix (ascii ''py'' @ [newline]) body then drop 3 body else body)"
proof -
  let ?W = "\<lambda>c. c \<in> set wrapper_chars"
  let ?code = "pre @ body @ post"
  from assms(1,2) have h: "0 < length ?code \<and> ?code ! 0 \<in> set wrapper_chars"
    by (cases pre) auto
  have "dropWhile ?W ?code = dropWhile ?W (body @ post)"
    using assms(2) by (intro dropWhile_append2) auto
  also have "\<dots> = body @ post"
    using assms(4,5) by (cases body) auto
  finally have l: "leading_loop ?code 0 [] = body @ post"
    using h by (simp add: leading_loop_spec)
  have r: "rev (dropWhile ?W (rev (body @ post))) = body"
  proof -
    have "dropWhile ?W (rev post @ rev body) = dropWhile ?W (rev body)"
      using assms(3) by (intro dropWhile_append2) auto
    also have "\<dots> = rev body"
      using assms(4,6) by (cases body rule: rev_cases) auto
    finally show ?thesis by simp
  qed
  have "trailing_loop (body @ post) (length (body @ post)) (body @ post) = body"
  proof (cases "post = []")
    case True
    with assms(4,6) have "(body @ post) ! (length (body @ post) - 1) \<notin> set wrapper_chars"
      by (simp add: last_conv_nth)
    with True show ?thesis by (simp add: trailing_loop_spec)
  next
    case False
    then have "(body @ post) ! (length (body @ post) - 1) = last post"
      by (metis last_appendR last_conv_nth append_is_Nil_conv)
    with False assms(3) have "(body @ post) ! (length (body @ post) - 1) \<in> set wrapper_chars"
      by auto
    with r False show ?thesis by (simp add: trailing_loop_spec)
  qed
  with l show ?thesis by (simp add: normalize_source_def Let_def)
qed

text \<open>
  The test source of the specification: the wrapper in front is two spaces and the
  fence, the body is the tag and \<open>print(1)\<close>, the wrapper behind is the newline, the
  fence and two spaces.
\<close>

theorem normalize_source_wrapped_witness:
  "ascii ''  ```'' \<noteq> [] \<and> set (ascii ''  ```'') \<subseteq> set wrapper_chars \<and>
   set (newline # ascii ''```  '') \<subseteq> set wrapper_chars \<and>
   ascii ''py'' @ newline # ascii ''print(1)'' \<noteq> [] \<and>
   hd (ascii ''py'' @ newline # ascii ''print(1)'') \<notin> set wrapper_chars \<and>
   last (ascii ''py'' @ newline # ascii ''print(1)'') \<notin> set wrapper_chars \<and>
   spec_test_source =
     ascii ''  ```'' @ (ascii ''py'' @ newline # ascii ''print(1)'') @ newline # ascii ''```  '' \<and>
   normalize_source spec_test_source = ascii ''print(1)''"
  using normalize_source_wrapped [of "ascii ''  ```''" "newline # ascii ''```  ''"
      "ascii ''py'' @ newline # ascii ''print(1)''"]
  by (simp add: spec_test_source_def ascii_def newline_def wrapper_chars_def space_def
      backtick_def)

text \<open>
  The claim as the specification states it fails on its own test source: the result
  has no trailing newline.
\<close>

theorem normalize_source_test_counterexample:
  "normalize_source spec_test_source \<noteq> ascii ''print(1)'' @ [newline]"
  by code_simp


text \<open>
  A source that does not begin with a wrapper character is not covered by the
  theorem above: the first loop leaves \<open>ret\<close> at its initial value, the empty
  string, and that is what is executed.
\<close>

lemma normalize_source_unwrapped:
  assumes "code \<noteq> []" "hd code \<notin> set wrapper_chars"
  shows "normalize_source code = []"
proof -
  from assms have "\<not> (0 < length code \<and> code ! 0 \<in> set wrapper_chars)"
    by (cases code) auto
  then have "leading_loop code 0 [] = []"
    using leading_loop_spec [of 0 code "[]"] by auto
  then show ?thesis by (simp add: normalize_source_def ascii_def)
qed


section \<open>Rendering the result\<close>


lemma and_then_Returned: "and_then (Returned w) f = f w"
  by (simp add: and_then_def)


lemma files_channel_send: "files (world_of (channel_send en a w)) = files w"
  by (simp add: channel_send_def)













section \<open>The image file\<close>

text \<open>
  Claim C3 does not hold of the code at the boundary. An image whose file has exactly
  \<open>2 ^ 22\<close> bytes is not handed off: the test is \<open>getsize < 2 ** 22\<close>, so the channel
  receives the notice that the file is larger than 4 MiB, a notice that is false
  at this size.
\<close>

theorem image_at_ceiling_refused:
  assumes "png_size en im = 2 ^ 22" "delivers en image_too_large"
  shows "image_handoff en start im w =
           Returned (w\<lparr>files := (files w)(temp_png en start := None),
                       channel := channel w @ [image_too_large]\<rparr>)"
  using assms
  by (simp add: image_handoff_def image_save_def channel_send_def and_then_def os_remove_def)

theorem image_at_ceiling_refused_witness:
  "png_size plain_env 4194304 = 2 ^ 22 \<and> delivers plain_env image_too_large \<and>
   image_handoff plain_env 0 4194304 empty_world =
     Returned \<lparr>files = Map.empty, channel = [image_too_large]\<rparr>"
  using image_at_ceiling_refused [of plain_env 4194304 0 empty_world]
  by (simp add: plain_env_def empty_world_def)

text \<open>
  On the path that returns, the file is gone: when the channel accepts the one
  message the image step sends, the handler leaves the files as they were, less the
  file named \<open>temp\<close>, the text of the start time and \<open>.png\<close>.
\<close>

lemma image_handoff_sent:
  assumes "delivers en (if png_size en im < 2 ^ 22 then SendFile (temp_png en start)
                        else image_too_large)"
  shows "image_handoff en start im w =
           Returned (w\<lparr>files := (files w)(temp_png en start := None),
                       channel := channel w @
                         [if png_size en im < 2 ^ 22 then SendFile (temp_png en start)
                          else image_too_large]\<rparr>)"
  using assms
  by (simp add: image_handoff_def image_save_def channel_send_def and_then_def os_remove_def
      split: if_splits)

lemma temp_file_removed_when_sent:
  assumes "res_exc returned = None" "res_img returned = Some im"
    and "delivers en (if png_size en im < 2 ^ 22 then SendFile (temp_png en start)
                      else image_too_large)"
  shows "files (world_of (exec_render en start returned w)) =
           (files w)(temp_png en start := None)"
  using assms(1,2)
  by (simp add: exec_render_def image_handoff_sent [OF assms(3)] and_then_Returned
      sendEmbed_def files_channel_send)

text \<open>
  Claim C7 does not hold of the code. \<open>os.remove\<close> stands after the send, outside
  any \<open>try\<close>: whenever the message the image step sends (the file, or the notice
  for a file that is too large) is refused and the send raises, the handler ends
  with that exception and the file it has just written is still there.
\<close>

theorem temp_file_left_when_send_raises:
  assumes "res_exc returned = None" "res_img returned = Some im"
    and "\<not> delivers en (if png_size en im < 2 ^ 22 then SendFile (temp_png en start)
                        else image_too_large)"
  shows "exec_render en start returned w =
           Raised HTTPException
             (w\<lparr>files := (files w)(temp_png en start \<mapsto> png_size en im)\<rparr>)"
  using assms
  by (simp add: exec_render_def image_handoff_def image_save_def channel_send_def
      and_then_def split: if_splits)

theorem temp_file_left_when_send_raises_witness:
  "res_exc (text_result (ascii ''1'') (Some 100)) = None \<and>
   res_img (text_result (ascii ''1'') (Some 100)) = Some 100 \<and>
   \<not> delivers failing_env (if png_size failing_env 100 < 2 ^ 22
        then SendFile (temp_png failing_env 0) else image_too_large) \<and>
   exec_render failing_env 0 (text_result (ascii ''1'') (Some 100)) empty_world =
     Raised HTTPException \<lparr>files = [temp_png failing_env 0 \<mapsto> 100], channel = []\<rparr> \<and>
   files (world_of (exec_render failing_env 0 (text_result (ascii ''1'') (Some 100))
      empty_world)) (temp_png failing_env 0) = Some 100"
proof -
  have p: "res_exc (text_result (ascii ''1'') (Some 100)) = None"
    "res_img (text_result (ascii ''1'') (Some 100)) = Some 100"
    "\<not> delivers failing_env (if png_size failing_env 100 < 2 ^ 22
        then SendFile (temp_png failing_env 0) else image_too_large)"
    by (simp_all add: failing_env_def plain_env_def text_result_def)
  have s: "png_size failing_env 100 = 100"
    by (simp add: failing_env_def plain_env_def)
  from temp_file_left_when_send_raises [OF p, of empty_world]
  have "exec_render failing_env 0 (text_result (ascii ''1'') (Some 100)) empty_world =
     Raised HTTPException \<lparr>files = [temp_png failing_env 0 \<mapsto> 100], channel = []\<rparr>"
    by (simp add: s empty_world_def)
  with p show ?thesis by simp
qed


section \<open>The length of the rendered text\<close>

lemma length_framed_long: "2041 < length s \<Longrightarrow> length (framed s) = 2049"
  by (simp add: framed_def fence_def ascii_def)

lemma length_framed_short: "length s \<le> 2041 \<Longrightarrow> length (framed s) = length s + 7"
  by (simp add: framed_def fence_def)

text \<open>
  Claim C4 does not hold of the code. A text whose neutralised form has more than
  2041 characters is cut to 2038 characters, and with the four characters in front
  and the seven behind the description has 2049 characters, one more than the
  limit.
\<close>

theorem text_description_overlong:
  assumes "2041 < length (py_replace fence esc_text txt)"
  shows "length (text_description txt) = 2049"
proof -
  from assms have "py_replace fence esc_text txt \<noteq> []" by auto
  with assms show ?thesis
    by (simp add: text_description_def Let_def length_framed_long)
qed

theorem text_description_overlong_witness:
  "2041 < length (py_replace fence esc_text (replicate 2042 97)) \<and>
   length (text_description (replicate 2042 97)) = 2049"
  using text_description_overlong [of "replicate 2042 97"]
  by (simp add: fence_replace_clean backtick_def)

text \<open>\<open>code_block\<close> of \<open>pgbot/utils.py\<close> frames the same way and keeps the limit.\<close>

lemma py_slice_to_take: "0 \<le> n \<Longrightarrow> py_slice_to n s = take (nat n) s"
  by (simp add: py_slice_to_def)

lemma length_code_block: "length (code_block s 2048) \<le> 2048"
  by (simp add: code_block_def Let_def py_slice_to_take fence_def ascii_def)


section \<open>\<open>split_long_message\<close>\<close>

lemma py_split_clean: "c \<notin> set s \<Longrightarrow> py_split c s = [s]"
  by (induction s) auto

text \<open>
  As long as every line of the message has at most 1999 characters, every chunk has
  at most 2000.
\<close>

lemma split_step_bound:
  assumes "length line \<le> 1999" "\<forall>c\<in>set out. length c \<le> 2000" "length temp \<le> 2000"
    and "split_step (out, temp) line = (out', temp')"
  shows "(\<forall>c\<in>set out'. length c \<le> 2000) \<and> length temp' \<le> 2000"
  using assms by (auto simp: split_step_def split: if_splits)

lemma foldl_split_step_bound:
  assumes "\<forall>l\<in>set lines. length l \<le> 1999" "\<forall>c\<in>set out. length c \<le> 2000"
    "length temp \<le> 2000" "foldl split_step (out, temp) lines = (out', temp')"
  shows "(\<forall>c\<in>set out'. length c \<le> 2000) \<and> length temp' \<le> 2000"
  using assms
proof (induction lines arbitrary: out temp)
  case Nil
  then show ?case by simp
next
  case (Cons l lines)
  obtain o1 t1 where s: "split_step (out, temp) l = (o1, t1)"
    by (cases "split_step (out, temp) l")
  with Cons.prems have "(\<forall>c\<in>set o1. length c \<le> 2000) \<and> length t1 \<le> 2000"
    using split_step_bound [of l out temp o1 t1] by simp
  with Cons.IH [of o1 t1] Cons.prems s show ?case by simp
qed

lemma split_long_message_short_lines:
  assumes "\<forall>l\<in>set (py_split newline message). length l \<le> 1999"
  shows "\<forall>c\<in>set (split_long_message message). length c \<le> 2000"
proof -
  obtain out temp where f: "foldl split_step ([], []) (py_split newline message) = (out, temp)"
    by (cases "foldl split_step ([], []) (py_split newline message)")
  with assms have "(\<forall>c\<in>set out. length c \<le> 2000) \<and> length temp \<le> 2000"
    using foldl_split_step_bound [of "py_split newline message" "[]" "[]" out temp] by simp
  with f show ?thesis by (simp add: split_long_message_def)
qed

text \<open>
  Claim C8 does not hold of the code. The function cuts at newlines only: a message
  that is one line of 3000 characters comes back as an empty chunk and a chunk of
  3001 characters.
\<close>

theorem split_long_message_long_line:
  "split_long_message (replicate 3000 97) = [[], replicate 3000 97 @ [newline]]"
  by (simp add: split_long_message_def py_split_clean newline_def split_step_def)


section \<open>\<open>progress_bar\<close>\<close>

lemma length_str_mul_single: "length (py_str_mul [c] n) = nat n"
  by (simp add: py_str_mul_def length_concat sum_list_replicate)

text \<open>
  Claim C9. With the default glyphs, which are one character each, and a division
  count that is not negative, the bar has as many characters as divisions, whatever
  the percentage.
\<close>

theorem progress_bar_length:
  assumes "0 \<le> divisions"
  shows "length (progress_bar pct full_bar_default empty_bar_default divisions) = nat divisions"
proof -
  define p where "p = (if pct < 0 then 0 else if pct > 1 then 1 else pct)"
  have p: "0 \<le> p" "p \<le> 1" by (auto simp: p_def)
  define k where "k = py_trunc (of_int divisions * p)"
  have nn: "0 \<le> of_int divisions * p" using assms p by simp
  then have k: "k = \<lfloor>of_int divisions * p\<rfloor>" by (simp add: k_def py_trunc_def)
  have "0 \<le> k" using nn k by simp
  moreover have "of_int divisions * p \<le> of_int divisions"
    using assms p by (simp add: mult_left_le)
  then have "k \<le> divisions" unfolding k by (simp add: floor_le_iff)
  ultimately have "nat k + nat (divisions - k) = nat divisions" by simp
  then show ?thesis
    by (simp add: progress_bar_def full_bar_default_def empty_bar_default_def
        length_str_mul_single Let_def p_def [symmetric] k_def [symmetric])
qed

theorem progress_bar_length_witness:
  "(0::int) \<le> 10 \<and>
   length (progress_bar (3 / 2) full_bar_default empty_bar_default 10) = 10 \<and>
   length (progress_bar (- 1) full_bar_default empty_bar_default 10) = 10 \<and>
   length (progress_bar (1 / 4) full_bar_default empty_bar_default 10) = 10"
  using progress_bar_length [of 10 "3 / 2"] progress_bar_length [of 10 "- 1"]
    progress_bar_length [of 10 "1 / 4"]
  by simp


section \<open>\<open>filter_emoji_id\<close>\<close>

text \<open>
  Claim C10 does not hold of the code. On a name with two colons the conversion is
  outside the \<open>try\<close>: the last field of \<open>:thinking:\<close> is empty, \<open>int\<close> of the empty
  string raises, and the function raises \<open>ValueError\<close>.
\<close>

theorem filter_emoji_id_raises:
  "filter_emoji_id (ascii '':thinking:'') = Inl ValueError"
  by code_simp

end
